theory Spec2Isabelle
  imports Complex_Main "HOL-Library.Word"
begin

text \<open>
  A model of two screens of EchoNote: the main capture screen (component \<open>App\<close>), with
  its speech recognition handler, its analyze action and its clear action, and the
  history screen (\<open>pages/History.tsx\<close>), with fetch, delete, copy and what it renders.
  State setters become updates of a record of the component's state; what a handler
  awaits (the generation endpoint, the record store, the clipboard) answers through a
  parameter, and the calls a handler makes are returned as a list.
\<close>

section \<open>JavaScript values used by the screens\<close>

subsection \<open>Strings\<close>

text \<open>
  A JavaScript string is a sequence of 16-bit code units.  String literals of the source
  are ASCII, so \<open>lit\<close> maps every character of the literal to the code unit of the same
  number.
\<close>

type_synonym jsstring = "16 word list"

definition lit :: "string \<Rightarrow> jsstring" where
  "lit cs = map of_char cs"

text \<open>
  \<open>String.prototype.trim\<close> removes leading and trailing WhiteSpace and LineTerminator
  code units: TAB, LF, VT, FF, CR, SP, NBSP, U+1680, U+2000 to U+200A, LS, PS, U+202F,
  U+205F, U+3000 and the byte order mark U+FEFF.
\<close>

definition is_space :: "16 word \<Rightarrow> bool" where
  "is_space c \<longleftrightarrow>
     c = 0x0009 \<or> c = 0x000A \<or> c = 0x000B \<or> c = 0x000C \<or> c = 0x000D \<or> c = 0x0020 \<or>
     c = 0x00A0 \<or> c = 0x1680 \<or> (0x2000 \<le> c \<and> c \<le> 0x200A) \<or> c = 0x2028 \<or>
     c = 0x2029 \<or> c = 0x202F \<or> c = 0x205F \<or> c = 0x3000 \<or> c = 0xFEFF"

definition trim :: "jsstring \<Rightarrow> jsstring" where
  "trim s = rev (dropWhile is_space (rev (dropWhile is_space s)))"

text \<open>A string is falsy exactly when it is empty: \<open>!s.trim()\<close> is \<open>blank s\<close>.\<close>

definition blank :: "jsstring \<Rightarrow> bool" where
  "blank s \<longleftrightarrow> trim s = []"

subsection \<open>Parsed JSON\<close>

text \<open>
  The value \<open>response.json()\<close> resolves to.  An object keeps its members in source
  order; \<open>JSON.parse\<close> lets the last of several members with one key win.  A number is
  the value parsed; only whether it is zero matters to the code.
\<close>

datatype json =
    JNull
  | JBool bool
  | JNum real
  | JStr jsstring
  | JArr "json list"
  | JObj "(jsstring \<times> json) list"

text \<open>The property names the code reads, and the index \<open>[0]\<close>.\<close>

datatype property = P_candidates | P_content | P_parts | P_text | P_error | P_message | P_0

fun prop_name :: "property \<Rightarrow> jsstring" where
  "prop_name P_candidates = lit ''candidates''"
| "prop_name P_content = lit ''content''"
| "prop_name P_parts = lit ''parts''"
| "prop_name P_text = lit ''text''"
| "prop_name P_error = lit ''error''"
| "prop_name P_message = lit ''message''"
| "prop_name P_0 = lit ''0''"

text \<open>
  \<open>v[p]\<close> for a value \<open>v\<close> that is neither \<open>null\<close> nor \<open>undefined\<close>; \<open>None\<close> is
  \<open>undefined\<close>.  An object is looked up by key, an array and a string answer the index
  \<open>0\<close> only, and numbers and booleans have none of these properties.
\<close>

fun js_get :: "json \<Rightarrow> property \<Rightarrow> json option" where
  "js_get (JObj kvs) p = map_of (rev kvs) (prop_name p)"
| "js_get (JArr xs) P_0 = (case xs of [] \<Rightarrow> None | x # _ \<Rightarrow> Some x)"
| "js_get (JStr s) P_0 = (case s of [] \<Rightarrow> None | c # _ \<Rightarrow> Some (JStr [c]))"
| "js_get _ _ = None"

text \<open>Optional chaining \<open>v?.[p]\<close>: \<open>undefined\<close> when \<open>v\<close> is \<open>null\<close> or \<open>undefined\<close>.\<close>

fun opt_get :: "json option \<Rightarrow> property \<Rightarrow> json option" where
  "opt_get None p = None"
| "opt_get (Some JNull) p = None"
| "opt_get (Some v) p = js_get v p"

text \<open>Truthiness, as \<open>||\<close> and \<open>if\<close> test it.\<close>

fun truthy :: "json option \<Rightarrow> bool" where
  "truthy None = False"
| "truthy (Some JNull) = False"
| "truthy (Some (JBool b)) = b"
| "truthy (Some (JNum x)) = (x \<noteq> 0)"
| "truthy (Some (JStr s)) = (s \<noteq> [])"
| "truthy (Some (JArr xs)) = True"
| "truthy (Some (JObj kvs)) = True"

subsection \<open>Exceptions and the engine\<close>

text \<open>
  A thrown value either is an \<open>Error\<close> instance with a message or is something else.
  The handlers only ask \<open>err instanceof Error\<close> and read \<open>err.message\<close>.
\<close>

datatype js_exn = ErrorObj jsstring | NonError

text \<open>
  What the JavaScript engine decides and the source does not: the message of the
  \<open>TypeError\<close> raised by reading a property of \<open>null\<close> or \<open>undefined\<close>, and the
  conversion of a value that is not a string to the string \<open>new Error(v)\<close> stores
  (which may itself throw).
\<close>

record engine =
  nullReadMessage :: jsstring
  toStringOf :: "json \<Rightarrow> js_exn + jsstring"

definition null_read :: "engine \<Rightarrow> js_exn" where
  "null_read eng = ErrorObj (nullReadMessage eng)"

text \<open>\<open>err instanceof Error ? err.message : d\<close>, the test of every \<open>catch\<close> block.\<close>

fun message_or :: "js_exn \<Rightarrow> jsstring \<Rightarrow> jsstring" where
  "message_or (ErrorObj m) d = m"
| "message_or NonError d = d"

text \<open>\<open>v || d\<close>: the left value when it is truthy, the right one otherwise.\<close>

fun or_else :: "json option \<Rightarrow> json \<Rightarrow> json" where
  "or_else None d = d"
| "or_else (Some v) d = (if truthy (Some v) then v else d)"

subsection \<open>The record store client\<close>

text \<open>
  An awaited store operation either rejects, or resolves to \<open>{ data, error }\<close> where each
  of the two may be \<open>null\<close>.  \<open>thrown\<close> is the exception of
  \<open>const { error } = await op; if (error) throw error\<close>, if any.
\<close>

datatype 'a store_result = StoreRejects js_exn | StoreResolves "'a option" "js_exn option"

fun thrown :: "'a store_result \<Rightarrow> js_exn option" where
  "thrown (StoreRejects e) = Some e"
| "thrown (StoreResolves d err) = err"

section \<open>Main capture screen\<close>

subsection \<open>State\<close>

text \<open>
  The response state holds whatever value the analyze action extracted from the parsed
  body: a string for an envelope of the expected shape.
\<close>

record app_state =
  isListening :: bool
  transcript :: jsstring
  geminiResponse :: json
  isProcessing :: bool
  error :: jsstring
  copied :: bool
  geminiApiKey :: jsstring
  customPrompt :: jsstring

definition app_init :: app_state where
  "app_init = \<lparr> isListening = False, transcript = [], geminiResponse = JStr [],
     isProcessing = False, error = [], copied = False, geminiApiKey = [],
     customPrompt = [] \<rparr>"

subsection \<open>Recognition results\<close>

record alternative =
  alt_transcript :: jsstring

record recognition_result =
  isFinal :: bool
  alternatives :: "alternative list"

record recognition_event =
  results :: "recognition_result list"
  resultIndex :: nat

text \<open>
  The loop of \<open>onresult\<close>, from index \<open>i\<close> with the text gathered so far.  Reading
  \<open>result[0].transcript\<close> of a result without alternatives throws.
\<close>

function scan_results ::
  "engine \<Rightarrow> recognition_result list \<Rightarrow> nat \<Rightarrow> jsstring \<Rightarrow> js_exn + jsstring" where
  "scan_results eng rs i finalTranscript =
     (if i < length rs then
        (if isFinal (rs ! i) then
           (case alternatives (rs ! i) of
              [] \<Rightarrow> Inl (null_read eng)
            | a # _ \<Rightarrow> scan_results eng rs (Suc i) (finalTranscript @ alt_transcript a @ lit '' ''))
         else scan_results eng rs (Suc i) finalTranscript)
      else Inr finalTranscript)"
  by pat_completeness auto
termination
  by (relation "measure (\<lambda>(eng, rs, i, acc). length rs - i)") auto

declare scan_results.simps [simp del]

text \<open>
  The handler: the state is updated, from the state current at that time, only when some
  final text was gathered.  An exception leaves the handler before any update.
\<close>

definition onresult :: "engine \<Rightarrow> recognition_event \<Rightarrow> app_state \<Rightarrow> js_exn + app_state" where
  "onresult eng event s =
     (case scan_results eng (results event) (resultIndex event) [] of
        Inl e \<Rightarrow> Inl e
      | Inr finalTranscript \<Rightarrow>
          Inr (if finalTranscript \<noteq> [] then s\<lparr>transcript := transcript s @ finalTranscript\<rparr>
               else s))"

text \<open>
  Events are delivered one at a time; an exception that leaves a handler is reported by
  the browser and the state stays as it was.
\<close>

fun deliver :: "engine \<Rightarrow> recognition_event list \<Rightarrow> app_state \<Rightarrow> app_state" where
  "deliver eng [] s = s"
| "deliver eng (ev # evs) s =
     deliver eng evs (case onresult eng ev s of Inl e \<Rightarrow> s | Inr s' \<Rightarrow> s')"

text \<open>The segments an event contributes, as the specification words it.\<close>

definition top_candidate :: "recognition_result \<Rightarrow> jsstring" where
  "top_candidate r = alt_transcript (hd (alternatives r))"

definition final_text :: "recognition_event \<Rightarrow> jsstring" where
  "final_text ev =
     concat (map (\<lambda>r. top_candidate r @ lit '' '')
       (filter isFinal (drop (resultIndex ev) (results ev))))"

definition well_formed :: "recognition_event \<Rightarrow> bool" where
  "well_formed ev \<longleftrightarrow>
     list_all (\<lambda>r. isFinal r \<longrightarrow> alternatives r \<noteq> []) (drop (resultIndex ev) (results ev))"

subsection \<open>Calls to the outside\<close>

record request =
  req_url :: jsstring
  req_text :: jsstring

datatype call =
    Fetch request
  | ReadJson
  | StoreInsert jsstring json
  | RecognitionStart
  | RecognitionStop

subsection \<open>Analyze\<close>

datatype json_result = JsonRejects js_exn | JsonResolves json

record response =
  ok :: bool
  body :: json_result

datatype fetch_result = FetchRejects js_exn | FetchResolves response

record gemini_env =
  fetchResult :: fetch_result
  insertResult :: "unit store_result"

definition endpoint :: jsstring where
  "endpoint = lit ''https://generativelanguage.googleapis.com/v1beta/models/gemini-2.5-flash:generateContent?key=''"

definition default_instruction :: jsstring where
  "default_instruction = lit ''Please analyze and improve the following text. Provide a summary, correct any grammar issues, and suggest improvements:'' @ [0x000A, 0x000A]"

definition placeholder :: jsstring where
  "placeholder = lit ''No response generated''"

text \<open>The one text block of the request body, \<open>contents[0].parts[0].text\<close>.\<close>

definition request_text :: "app_state \<Rightarrow> jsstring" where
  "request_text s =
     (if \<not> blank (customPrompt s) then customPrompt s @ [0x000A, 0x000A] @ transcript s
      else default_instruction @ transcript s)"

definition gemini_request :: "app_state \<Rightarrow> request" where
  "gemini_request s = \<lparr> req_url = endpoint @ geminiApiKey s, req_text = request_text s \<rparr>"

text \<open>\<open>data.candidates?.[0]?.content?.parts?.[0]?.text\<close> for \<open>data\<close> other than \<open>null\<close>.\<close>

definition candidate_text :: "json \<Rightarrow> json option" where
  "candidate_text data =
     opt_get (opt_get (opt_get (opt_get (opt_get (js_get data P_candidates) P_0) P_content)
       P_parts) P_0) P_text"

definition extract_text :: "engine \<Rightarrow> json \<Rightarrow> js_exn + json" where
  "extract_text eng data =
     (case data of
        JNull \<Rightarrow> Inl (null_read eng)
      | _ \<Rightarrow> Inr (or_else (candidate_text data) (JStr placeholder)))"

text \<open>
  The exception thrown for a response that is not ok, from its parsed body:
  \<open>new Error(errorData.error?.message || 'Failed to process with Gemini API')\<close>.
\<close>

definition error_of_response :: "engine \<Rightarrow> json \<Rightarrow> js_exn" where
  "error_of_response eng errorData =
     (case errorData of
        JNull \<Rightarrow> null_read eng
      | _ \<Rightarrow>
          (case or_else (opt_get (js_get errorData P_error) P_message)
                  (JStr (lit ''Failed to process with Gemini API'')) of
             JStr m \<Rightarrow> ErrorObj m
           | v \<Rightarrow> (case toStringOf eng v of Inl e \<Rightarrow> e | Inr m \<Rightarrow> ErrorObj m)))"

text \<open>
  The \<open>try\<close> block: the exception that leaves it, if any, the state it reached and the
  calls it made.  \<open>r\<close> is the state of the render the handler belongs to, which it
  reads; \<open>s\<close> is the state it writes.  The result of the insert is not looked at.
\<close>

definition gemini_try ::
  "engine \<Rightarrow> gemini_env \<Rightarrow> app_state \<Rightarrow> app_state \<Rightarrow> js_exn option \<times> app_state \<times> call list" where
  "gemini_try eng env r s =
     (case fetchResult env of
        FetchRejects e \<Rightarrow> (Some e, s, [Fetch (gemini_request r)])
      | FetchResolves resp \<Rightarrow>
          (if \<not> ok resp then
             (case body resp of
                JsonRejects e \<Rightarrow> (Some e, s, [Fetch (gemini_request r), ReadJson])
              | JsonResolves errorData \<Rightarrow>
                  (Some (error_of_response eng errorData), s,
                   [Fetch (gemini_request r), ReadJson]))
           else
             (case body resp of
                JsonRejects e \<Rightarrow> (Some e, s, [Fetch (gemini_request r), ReadJson])
              | JsonResolves data \<Rightarrow>
                  (case extract_text eng data of
                     Inl e \<Rightarrow> (Some e, s, [Fetch (gemini_request r), ReadJson])
                   | Inr generatedText \<Rightarrow>
                       ((case insertResult env of
                           StoreRejects e \<Rightarrow> Some e
                         | StoreResolves d err \<Rightarrow> None),
                        s\<lparr>geminiResponse := generatedText\<rparr>,
                        [Fetch (gemini_request r), ReadJson,
                         StoreInsert (transcript r) generatedText])))))"

text \<open>
  The analyze action, from click to the end of its last \<open>await\<close>, with no other handler
  in between.  The two guards return before anything else; otherwise the flags are set,
  the \<open>try\<close> block runs, \<open>catch\<close> shows the message of an exception and \<open>finally\<close>
  resets the processing flag.
\<close>

definition processWithGemini :: "engine \<Rightarrow> gemini_env \<Rightarrow> app_state \<Rightarrow> app_state \<times> call list" where
  "processWithGemini eng env s =
     (if blank (transcript s) then (s\<lparr>error := lit ''Please record some speech first''\<rparr>, [])
      else if blank (geminiApiKey s) then
        (s\<lparr>error := lit ''Please enter your Gemini API key''\<rparr>, [])
      else
        (case gemini_try eng env s
                (s\<lparr>isProcessing := True, error := [], geminiResponse := JStr []\<rparr>) of
           (None, s', calls) \<Rightarrow> (s'\<lparr>isProcessing := False\<rparr>, calls)
         | (Some err, s', calls) \<Rightarrow>
             (s'\<lparr>error := message_or err (lit ''An error occurred''), isProcessing := False\<rparr>,
              calls)))"

subsection \<open>Clear and the microphone button\<close>

definition clearAll :: "app_state \<Rightarrow> app_state \<times> call list" where
  "clearAll s =
     (s\<lparr>transcript := [], geminiResponse := JStr [], error := [], copied := False,
        customPrompt := []\<rparr>, [])"

text \<open>
  \<open>available\<close> says that the browser has a recognition object; \<open>start\<close> may throw, and
  then the listening flag is not set.
\<close>

definition toggleListening :: "bool \<Rightarrow> js_exn option \<Rightarrow> app_state \<Rightarrow> app_state \<times> call list" where
  "toggleListening available startThrows s =
     (if \<not> available then (s, [])
      else if isListening s then (s\<lparr>isListening := False\<rparr>, [RecognitionStop])
      else (case startThrows of
              Some e \<Rightarrow> (s\<lparr>error := []\<rparr>, [RecognitionStart])
            | None \<Rightarrow> (s\<lparr>error := [], isListening := True\<rparr>, [RecognitionStart])))"

section \<open>History screen\<close>

subsection \<open>State\<close>

record SpeechRecord =
  rec_id :: jsstring
  rec_transcript :: jsstring
  gemini_response :: jsstring
  created_at :: jsstring
  title :: "jsstring option"

record hist_state =
  records :: "SpeechRecord list"
  isLoading :: bool
  hist_error :: jsstring
  hist_copied :: "jsstring option"
  selectedRecord :: "SpeechRecord option"

definition hist_init :: hist_state where
  "hist_init = \<lparr> records = [], isLoading = True, hist_error = [], hist_copied = None,
     selectedRecord = None \<rparr>"

subsection \<open>Handlers\<close>

text \<open>
  A handler runs in two parts: the part before its \<open>await\<close>, at the click, and the part
  after it, when the operation has answered.  The second part reads the variables of the
  render the handler was created in (\<open>r\<close>) and writes the state current then (\<open>s\<close>).
\<close>

definition fetchRecords_start :: "hist_state \<Rightarrow> hist_state" where
  "fetchRecords_start s = s\<lparr>isLoading := True\<rparr>"

definition fetchRecords_done :: "SpeechRecord list store_result \<Rightarrow> hist_state \<Rightarrow> hist_state" where
  "fetchRecords_done res s =
     (case thrown res of
        Some err \<Rightarrow> s\<lparr>hist_error := message_or err (lit ''Failed to load history'')\<rparr>
      | None \<Rightarrow>
          s\<lparr>records := (case res of StoreResolves (Some d) e \<Rightarrow> d | _ \<Rightarrow> [])\<rparr>)
     \<lparr>isLoading := False\<rparr>"

definition deleteRecord ::
  "hist_state \<Rightarrow> jsstring \<Rightarrow> unit store_result \<Rightarrow> hist_state \<Rightarrow> hist_state" where
  "deleteRecord r i res s =
     (case thrown res of
        Some err \<Rightarrow> s\<lparr>hist_error := message_or err (lit ''Failed to delete record'')\<rparr>
      | None \<Rightarrow>
          (if map_option rec_id (selectedRecord r) = Some i
           then s\<lparr>records := filter (\<lambda>x. rec_id x \<noteq> i) (records r), selectedRecord := None\<rparr>
           else s\<lparr>records := filter (\<lambda>x. rec_id x \<noteq> i) (records r)\<rparr>))"

text \<open>
  The clipboard write either succeeds (\<open>None\<close>) or rejects.  On success the key of the
  target is stored and a timer of 2000 ms is set, whose callback is \<open>timer_fired\<close>.
\<close>

definition copyToClipboard :: "jsstring \<Rightarrow> js_exn option \<Rightarrow> hist_state \<Rightarrow> hist_state \<times> nat list" where
  "copyToClipboard key res s =
     (case res of
        None \<Rightarrow> (s\<lparr>hist_copied := Some key\<rparr>, [2000])
      | Some e \<Rightarrow> (s\<lparr>hist_error := lit ''Failed to copy to clipboard''\<rparr>, []))"

definition timer_fired :: "hist_state \<Rightarrow> hist_state" where
  "timer_fired s = s\<lparr>hist_copied := None\<rparr>"

text \<open>The keys of the two copy targets of a record.\<close>

definition transcript_key :: "jsstring \<Rightarrow> jsstring" where
  "transcript_key i = lit ''transcript-'' @ i"

definition response_key :: "jsstring \<Rightarrow> jsstring" where
  "response_key i = lit ''response-'' @ i"

subsection \<open>What is rendered\<close>

text \<open>
  With a selected record only the detail view is rendered.  Otherwise the error banner
  is rendered when the message is not empty, and below it exactly one of the spinner,
  the empty-list message and the list.  A copy target shows its check mark when the
  stored key is its own.
\<close>

definition shows_detail :: "hist_state \<Rightarrow> bool" where
  "shows_detail s \<longleftrightarrow> selectedRecord s \<noteq> None"

definition shows_error :: "hist_state \<Rightarrow> bool" where
  "shows_error s \<longleftrightarrow> selectedRecord s = None \<and> hist_error s \<noteq> []"

definition shows_loading :: "hist_state \<Rightarrow> bool" where
  "shows_loading s \<longleftrightarrow> selectedRecord s = None \<and> isLoading s"

definition shows_empty :: "hist_state \<Rightarrow> bool" where
  "shows_empty s \<longleftrightarrow> selectedRecord s = None \<and> \<not> isLoading s \<and> records s = []"

definition shows_list :: "hist_state \<Rightarrow> bool" where
  "shows_list s \<longleftrightarrow> selectedRecord s = None \<and> \<not> isLoading s \<and> records s \<noteq> []"

definition confirmed :: "hist_state \<Rightarrow> jsstring \<Rightarrow> bool" where
  "confirmed s key \<longleftrightarrow> hist_copied s = Some key"

subsection \<open>The screen as a transition system\<close>

text \<open>
  Besides the state, a configuration holds what is in flight: the fetch started on
  mount, every delete (with the render it was clicked in and its id), every clipboard
  write (with its key) and the number of timers set and not yet fired.
\<close>

record hist_config =
  ui :: hist_state
  fetching :: bool
  deletes :: "(hist_state \<times> jsstring) list"
  copies :: "jsstring list"
  timers :: nat

definition config_init :: hist_config where
  "config_init = \<lparr> ui = fetchRecords_start hist_init, fetching = True, deletes = [],
     copies = [], timers = 0 \<rparr>"

text \<open>
  One step: an operation answers, a timer fires, or the user clicks a control that the
  current render offers.  The rows and their delete buttons exist in the list view once
  loading is over; the back button, the delete button and the two copy buttons of the
  detail view exist while a record is selected.
\<close>

inductive hstep :: "hist_config \<Rightarrow> hist_config \<Rightarrow> bool" where
  fetch_answers:
    "fetching c \<Longrightarrow>
     hstep c (c\<lparr>ui := fetchRecords_done res (ui c), fetching := False\<rparr>)"
| select_row:
    "selectedRecord (ui c) = None \<Longrightarrow> \<not> isLoading (ui c) \<Longrightarrow> x \<in> set (records (ui c)) \<Longrightarrow>
     hstep c (c\<lparr>ui := (ui c)\<lparr>selectedRecord := Some x\<rparr>\<rparr>)"
| back_to_list:
    "selectedRecord (ui c) \<noteq> None \<Longrightarrow>
     hstep c (c\<lparr>ui := (ui c)\<lparr>selectedRecord := None\<rparr>\<rparr>)"
| click_delete_row:
    "selectedRecord (ui c) = None \<Longrightarrow> \<not> isLoading (ui c) \<Longrightarrow> x \<in> set (records (ui c)) \<Longrightarrow>
     hstep c (c\<lparr>deletes := deletes c @ [(ui c, rec_id x)]\<rparr>)"
| click_delete_detail:
    "selectedRecord (ui c) = Some x \<Longrightarrow>
     hstep c (c\<lparr>deletes := deletes c @ [(ui c, rec_id x)]\<rparr>)"
| delete_answers:
    "(r, i) \<in> set (deletes c) \<Longrightarrow>
     hstep c (c\<lparr>ui := deleteRecord r i res (ui c), deletes := remove1 (r, i) (deletes c)\<rparr>)"
| click_copy_transcript:
    "selectedRecord (ui c) = Some x \<Longrightarrow>
     hstep c (c\<lparr>copies := copies c @ [transcript_key (rec_id x)]\<rparr>)"
| click_copy_response:
    "selectedRecord (ui c) = Some x \<Longrightarrow>
     hstep c (c\<lparr>copies := copies c @ [response_key (rec_id x)]\<rparr>)"
| copy_answers:
    "key \<in> set (copies c) \<Longrightarrow>
     hstep c (c\<lparr>ui := fst (copyToClipboard key res (ui c)), copies := remove1 key (copies c),
               timers := timers c + length (snd (copyToClipboard key res (ui c)))\<rparr>)"
| timer_fires:
    "0 < timers c \<Longrightarrow>
     hstep c (c\<lparr>ui := timer_fired (ui c), timers := timers c - 1\<rparr>)"

definition reachable :: "hist_config \<Rightarrow> bool" where
  "reachable c \<longleftrightarrow> hstep\<^sup>*\<^sup>* config_init c"


subsection \<open>Invariant of the loading phase\<close>

text \<open>
  While the spinner state lasts nothing else has happened yet: no message, no selection,
  nothing in flight but the fetch.
\<close>

definition loading_inv :: "hist_config \<Rightarrow> bool" where
  "loading_inv c \<longleftrightarrow>
     (isLoading (ui c) \<longrightarrow>
        hist_error (ui c) = [] \<and> selectedRecord (ui c) = None \<and> deletes c = [] \<and>
        copies c = [] \<and> timers c = 0)"

section \<open>Observations on the calls made\<close>

text \<open>The text blocks of the generation requests in a list of calls, in order.\<close>

fun sent_texts :: "call list \<Rightarrow> jsstring list" where
  "sent_texts [] = []"
| "sent_texts (Fetch q # cs) = req_text q # sent_texts cs"
| "sent_texts (c # cs) = sent_texts cs"

text \<open>The \<open>{transcript, gemini_response}\<close> pairs passed to the store insert, in order.\<close>

fun stored :: "call list \<Rightarrow> (jsstring \<times> json) list" where
  "stored [] = []"
| "stored (StoreInsert t v # cs) = (t, v) # stored cs"
| "stored (c # cs) = stored cs"

section \<open>Concrete inputs\<close>

definition engine0 :: engine where
  "engine0 = \<lparr> nullReadMessage = lit ''Cannot read properties of null'',
     toStringOf = (\<lambda>v. Inr (lit ''[object Object]'')) \<rparr>"

text \<open>A response body of the expected shape whose first part has text \<open>t\<close>.\<close>

definition envelope :: "jsstring \<Rightarrow> json" where
  "envelope t = JObj [(lit ''candidates'',
     JArr [JObj [(lit ''content'', JObj [(lit ''parts'', JArr [JObj [(lit ''text'', JStr t)]])])]])]"

text \<open>The generation request answers 200 with body \<open>data\<close>; the insert answers \<open>ins\<close>.\<close>

definition env_of :: "json \<Rightarrow> unit store_result \<Rightarrow> gemini_env" where
  "env_of data ins = \<lparr> fetchResult = FetchResolves \<lparr> ok = True, body = JsonResolves data \<rparr>,
     insertResult = ins \<rparr>"

definition s_meet :: app_state where
  "s_meet = app_init\<lparr>transcript := lit ''Meet on June 1'', geminiApiKey := lit ''key'',
     customPrompt := lit ''Extract dates''\<rparr>"

definition s_blank :: app_state where
  "s_blank = app_init\<lparr>transcript := lit ''  '' @ [0x00A0, 0x000A], geminiApiKey := lit ''key''\<rparr>"

definition s_nokey :: app_state where
  "s_nokey = app_init\<lparr>transcript := lit ''Meet on June 1'', geminiApiKey := lit '' ''\<rparr>"

definition env_insert_fails :: gemini_env where
  "env_insert_fails = env_of (envelope (lit ''Summary: ...''))
     (StoreResolves None (Some (ErrorObj (lit ''new row violates row-level security policy''))))"

text \<open>
  Two events: the second reports start index 1, repeats the first result before it and
  ends with an interim result.
\<close>

definition example_events :: "recognition_event list" where
  "example_events =
     [\<lparr> results = [\<lparr> isFinal = True, alternatives = [\<lparr> alt_transcript = lit ''hello'' \<rparr>] \<rparr>,
                   \<lparr> isFinal = False, alternatives = [\<lparr> alt_transcript = lit ''wor'' \<rparr>] \<rparr>],
         resultIndex = 0 \<rparr>,
      \<lparr> results = [\<lparr> isFinal = True, alternatives = [\<lparr> alt_transcript = lit ''hello'' \<rparr>] \<rparr>,
                   \<lparr> isFinal = True, alternatives = [\<lparr> alt_transcript = lit ''world'' \<rparr>,
                                                       \<lparr> alt_transcript = lit ''word'' \<rparr>] \<rparr>,
                   \<lparr> isFinal = False, alternatives = [] \<rparr>],
         resultIndex = 1 \<rparr>]"

definition rec_of :: "string \<Rightarrow> string \<Rightarrow> string \<Rightarrow> SpeechRecord" where
  "rec_of i t g = \<lparr> rec_id = lit i, rec_transcript = lit t, gemini_response = lit g,
     created_at = lit ''2025-01-01T00:00:00Z'', title = None \<rparr>"

definition three_records :: "SpeechRecord list" where
  "three_records = [rec_of ''a'' ''first'' ''one'', rec_of ''b'' ''second'' ''two'',
     rec_of ''c'' ''third'' ''three'']"

text \<open>The detail view of record \<open>b\<close>, just after its transcript was copied.\<close>

definition s_detail :: hist_state where
  "s_detail = \<lparr> records = three_records, isLoading = False, hist_error = [],
     hist_copied = Some (transcript_key (lit ''b'')),
     selectedRecord = Some (rec_of ''b'' ''second'' ''two'') \<rparr>"

text \<open>That state with its timer pending and nothing else in flight.\<close>

definition c_detail :: hist_config where
  "c_detail = \<lparr> ui = s_detail, fetching = False, deletes = [], copies = [], timers = 1 \<rparr>"

text \<open>The configuration after the fetch started on mount has failed.\<close>

definition c_failed :: hist_config where
  "c_failed = config_init\<lparr>ui := fetchRecords_done
       (StoreResolves None (Some (ErrorObj (lit ''Failed to fetch'')))) (ui config_init),
     fetching := False\<rparr>"

text \<open>The list view after three records were loaded.\<close>

definition s_loaded :: hist_state where
  "s_loaded = \<lparr> records = three_records, isLoading = False, hist_error = [],
     hist_copied = None, selectedRecord = None \<rparr>"

text \<open>
  The delete buttons of rows \<open>a\<close> and \<open>b\<close> were clicked in that render; the delete of
  \<open>a\<close> has answered and the delete of \<open>b\<close> is still in flight.
\<close>

definition c_two_deletes :: hist_config where
  "c_two_deletes = \<lparr> ui = s_loaded\<lparr>records := [rec_of ''b'' ''second'' ''two'',
       rec_of ''c'' ''third'' ''three'']\<rparr>,
     fetching = False, deletes = [(s_loaded, lit ''b'')], copies = [], timers = 0 \<rparr>"

text \<open>
  The delete button of row \<open>b\<close> was clicked in the list view and, with the delete still
  in flight, the row was opened.
\<close>

definition c_opened :: hist_config where
  "c_opened = \<lparr> ui = s_loaded\<lparr>selectedRecord := Some (rec_of ''b'' ''second'' ''two'')\<rparr>,
     fetching = False, deletes = [(s_loaded, lit ''b'')], copies = [], timers = 0 \<rparr>"

section \<open>Properties of the main capture screen\<close>

subsection \<open>Evaluating the guards on the concrete inputs\<close>

lemma blank_Nil: "blank []"
  by (simp add: blank_def trim_def)

lemma s_meet_not_blank:
  "\<not> blank (transcript s_meet)" "\<not> blank (geminiApiKey s_meet)" "\<not> blank (customPrompt s_meet)"
  by (simp_all add: s_meet_def app_init_def blank_def trim_def is_space_def lit_def)

lemma s_meet_fields:
  "transcript s_meet = lit ''Meet on June 1''" "customPrompt s_meet = lit ''Extract dates''"
  by (simp_all add: s_meet_def app_init_def)

subsection \<open>The recognition handler\<close>

lemma drop_step: "i < length rs \<Longrightarrow> drop i rs = rs ! i # drop (Suc i) rs"
  by (simp add: Cons_nth_drop_Suc)

text \<open>The loop from index \<open>i\<close> appends the segments of the final results from \<open>i\<close> on.\<close>

lemma scan_results_eq:
  "list_all (\<lambda>r. isFinal r \<longrightarrow> alternatives r \<noteq> []) (drop i rs) \<Longrightarrow>
   scan_results eng rs i acc =
     Inr (acc @ concat (map (\<lambda>r. top_candidate r @ lit '' '') (filter isFinal (drop i rs))))"
proof (induction eng rs i acc rule: scan_results.induct)
  case (1 eng rs i acc)
  note unfold = scan_results.simps [of eng rs i acc]
  show ?case
  proof (cases "i < length rs")
    case False
    then show ?thesis by (simp add: unfold)
  next
    case True
    note d = drop_step [OF True]
    from "1.prems" d
    have rest: "list_all (\<lambda>r. isFinal r \<longrightarrow> alternatives r \<noteq> []) (drop (Suc i) rs)"
      and first: "isFinal (rs ! i) \<longrightarrow> alternatives (rs ! i) \<noteq> []" by simp_all
    show ?thesis
    proof (cases "isFinal (rs ! i)")
      case False
      with True "1.IH"(2) [OF True False rest] d show ?thesis by (simp add: unfold)
    next
      case fin: True
      with first obtain a as where a: "alternatives (rs ! i) = a # as"
        by (cases "alternatives (rs ! i)") auto
      from "1.IH"(1) [OF True fin a rest] True fin a d show ?thesis
        by (simp add: unfold top_candidate_def)
    qed
  qed
qed

lemma onresult_well_formed:
  "well_formed ev \<Longrightarrow> onresult eng ev s = Inr (s\<lparr>transcript := transcript s @ final_text ev\<rparr>)"
proof -
  assume "well_formed ev"
  then have scan: "scan_results eng (results ev) (resultIndex ev) [] = Inr (final_text ev)"
    by (simp add: well_formed_def final_text_def scan_results_eq)
  show ?thesis
    by (cases "final_text ev = []") (simp_all add: onresult_def scan)
qed

lemma deliver_well_formed:
  "list_all well_formed evs \<Longrightarrow>
   deliver eng evs s = s\<lparr>transcript := transcript s @ concat (map final_text evs)\<rparr>"
  by (induction evs arbitrary: s) (simp_all add: onresult_well_formed)

text \<open>
  Claim C1.  After any sequence of recognition result events the transcript is the
  previous transcript followed, in arrival order, by the top candidate of every result
  marked final among those from the event's start index to the end of its results, each
  followed by one space; interim results add nothing.  The top candidate of a final
  result has to exist: every such result scanned has at least one alternative.
\<close>

theorem transcript_accumulates:
  assumes "list_all well_formed evs"
  shows "transcript (deliver eng evs s) = transcript s @ concat (map final_text evs)"
  using assms by (simp add: deliver_well_formed)

theorem transcript_accumulates_witness:
  "list_all well_formed example_events \<and>
   transcript (deliver engine0 example_events (app_init\<lparr>transcript := lit ''Say: ''\<rparr>)) =
     lit ''Say: hello world ''"
proof -
  have w: "list_all well_formed example_events"
    by (simp add: example_events_def well_formed_def)
  have f: "concat (map final_text example_events) = lit ''hello world ''"
    by (simp add: example_events_def final_text_def top_candidate_def lit_def)
  from transcript_accumulates [OF w, of engine0 "app_init\<lparr>transcript := lit ''Say: ''\<rparr>"] w f
  show ?thesis by (simp add: lit_def)
qed

subsection \<open>The analyze action\<close>

lemma gemini_try_sent:
  "sent_texts (snd (snd (gemini_try eng env r s))) = [request_text r]"
  by (simp add: gemini_try_def gemini_request_def
      split: fetch_result.splits json_result.splits sum.splits store_result.splits)

lemma process_sent:
  "\<not> blank (transcript s) \<Longrightarrow> \<not> blank (geminiApiKey s) \<Longrightarrow>
   sent_texts (snd (processWithGemini eng env s)) = [request_text s]"
  using gemini_try_sent [of eng env s
      "s\<lparr>isProcessing := True, error := [], geminiResponse := JStr []\<rparr>"]
  by (auto simp: processWithGemini_def split: prod.splits option.splits)

text \<open>
  Claim C2.  The analyze action sends no request when the transcript or the key is
  blank, and otherwise exactly one, whose single text block is the custom prompt, two
  line feeds and the transcript when a custom prompt was supplied, that is, when it has
  a character that is not white space, and the default instruction followed by the
  transcript otherwise, in particular when the custom prompt is empty.  The instance
  below is the pair \<open>Extract dates\<close> and \<open>Meet on June 1\<close> of the specification.
\<close>

theorem request_text_block:
  "sent_texts (snd (processWithGemini eng env s)) =
     (if blank (transcript s) \<or> blank (geminiApiKey s) then []
      else [if blank (customPrompt s) then default_instruction @ transcript s
            else customPrompt s @ [0x000A, 0x000A] @ transcript s])"
proof (cases "blank (transcript s) \<or> blank (geminiApiKey s)")
  case True
  then show ?thesis by (auto simp: processWithGemini_def)
next
  case False
  then have "sent_texts (snd (processWithGemini eng env s)) = [request_text s]"
    by (simp add: process_sent)
  with False show ?thesis by (simp add: request_text_def)
qed

theorem request_text_block_witness:
  "sent_texts (snd (processWithGemini engine0
       (env_of (envelope (lit ''Summary: ...'')) (StoreResolves None None)) s_meet)) =
     [lit ''Extract dates'' @ [0x000A, 0x000A] @ lit ''Meet on June 1''] \<and>
   sent_texts (snd (processWithGemini engine0
       (env_of (envelope (lit ''Summary: ...'')) (StoreResolves None None))
       (s_meet\<lparr>customPrompt := []\<rparr>))) =
     [default_instruction @ lit ''Meet on June 1'']"
proof -
  note e = request_text_block [where eng = engine0
      and env = "env_of (envelope (lit ''Summary: ...'')) (StoreResolves None None)"]
  from e [of s_meet] e [of "s_meet\<lparr>customPrompt := []\<rparr>"] s_meet_not_blank s_meet_fields
  show ?thesis by (simp add: blank_Nil)
qed

text \<open>
  Claim C3.  With an empty or white-space-only transcript the analyze action makes no
  call at all and sets the message \<open>Please record some speech first\<close>; with a transcript
  that is not blank and an empty or white-space-only API key it makes no call and sets
  the message \<open>Please enter your Gemini API key\<close>.  Nothing else of the state changes.
\<close>

theorem analyze_guards:
  "(blank (transcript s) \<longrightarrow>
      snd (processWithGemini eng env s) = [] \<and>
      fst (processWithGemini eng env s) = s\<lparr>error := lit ''Please record some speech first''\<rparr>) \<and>
   (\<not> blank (transcript s) \<and> blank (geminiApiKey s) \<longrightarrow>
      snd (processWithGemini eng env s) = [] \<and>
      fst (processWithGemini eng env s) = s\<lparr>error := lit ''Please enter your Gemini API key''\<rparr>)"
  by (simp add: processWithGemini_def)

theorem analyze_guards_witness:
  "blank (transcript s_blank) \<and>
   snd (processWithGemini engine0 (env_of JNull (StoreResolves None None)) s_blank) = [] \<and>
   error (fst (processWithGemini engine0 (env_of JNull (StoreResolves None None)) s_blank)) =
     lit ''Please record some speech first'' \<and>
   \<not> blank (transcript s_nokey) \<and> blank (geminiApiKey s_nokey) \<and>
   snd (processWithGemini engine0 (env_of JNull (StoreResolves None None)) s_nokey) = [] \<and>
   error (fst (processWithGemini engine0 (env_of JNull (StoreResolves None None)) s_nokey)) =
     lit ''Please enter your Gemini API key''"
proof -
  have a: "blank (transcript s_blank)"
    by (simp add: s_blank_def app_init_def blank_def trim_def is_space_def lit_def)
  have b: "\<not> blank (transcript s_nokey)"
    by (simp add: s_nokey_def app_init_def blank_def trim_def is_space_def lit_def)
  have c: "blank (geminiApiKey s_nokey)"
    by (simp add: s_nokey_def app_init_def blank_def trim_def is_space_def lit_def)
  from analyze_guards [of s_blank engine0 "env_of JNull (StoreResolves None None)"]
    analyze_guards [of s_nokey engine0 "env_of JNull (StoreResolves None None)"] a b c
  show ?thesis by simp
qed

text \<open>
  The analyze action on a response that is ok and whose body parses to a value other
  than \<open>null\<close>: what is shown, what is called, and the message.
\<close>

lemma process_success:
  assumes "\<not> blank (transcript s)" and "\<not> blank (geminiApiKey s)"
    and "fetchResult env = FetchResolves resp" and "ok resp"
    and "body resp = JsonResolves data" and "data \<noteq> JNull"
  shows "geminiResponse (fst (processWithGemini eng env s)) =
           or_else (candidate_text data) (JStr placeholder)"
    and "snd (processWithGemini eng env s) =
           [Fetch (gemini_request s), ReadJson,
            StoreInsert (transcript s) (or_else (candidate_text data) (JStr placeholder))]"
    and "error (fst (processWithGemini eng env s)) =
           (case insertResult env of
              StoreRejects e \<Rightarrow> message_or e (lit ''An error occurred'')
            | StoreResolves d err \<Rightarrow> [])"
  using assms
  by (cases data; simp add: processWithGemini_def gemini_try_def extract_text_def
        split: store_result.splits)+



text \<open>
  An insert that rejects is reported, and the response stays on screen.
\<close>

lemma insert_rejection_reported:
  assumes "\<not> blank (transcript s)" and "\<not> blank (geminiApiKey s)"
    and "fetchResult env = FetchResolves resp" and "ok resp"
    and "body resp = JsonResolves data" and "data \<noteq> JNull"
    and "insertResult env = StoreRejects e"
  shows "error (fst (processWithGemini eng env s)) = message_or e (lit ''An error occurred'') \<and>
         geminiResponse (fst (processWithGemini eng env s)) =
           or_else (candidate_text data) (JStr placeholder)"
  using process_success(1,3) [OF assms(1-6), of eng] assms(7) by simp

text \<open>
  Claim C4.  The claim asks for a visible error message whenever the store insert fails
  after a successful generation.  The store client reports a failed insert in the
  \<open>error\<close> member of the value it resolves to, and the analyze action does not look at
  that value: at this input the insert resolves with an error, the response is shown and
  passed to the insert, and the error message stays empty.
\<close>

theorem insert_error_unreported:
  "thrown (insertResult env_insert_fails) \<noteq> None \<and>
   geminiResponse (fst (processWithGemini engine0 env_insert_fails s_meet)) =
     JStr (lit ''Summary: ...'') \<and>
   stored (snd (processWithGemini engine0 env_insert_fails s_meet)) =
     [(lit ''Meet on June 1'', JStr (lit ''Summary: ...''))] \<and>
   error (fst (processWithGemini engine0 env_insert_fails s_meet)) = []"
  by (simp add: env_insert_fails_def env_of_def envelope_def s_meet_def app_init_def
      processWithGemini_def gemini_try_def extract_text_def candidate_text_def
      blank_def trim_def is_space_def lit_def)




subsection \<open>Clear\<close>

text \<open>
  Claim C8.  Clear empties the transcript, the response, the error message, the copied
  flag and the custom prompt; the listening flag, the API key and the processing flag
  keep their values, and no call is made, so a capture in progress is not stopped.
\<close>

theorem clear_resets_five_fields:
  "transcript (fst (clearAll s)) = [] \<and> geminiResponse (fst (clearAll s)) = JStr [] \<and>
   error (fst (clearAll s)) = [] \<and> \<not> copied (fst (clearAll s)) \<and>
   customPrompt (fst (clearAll s)) = [] \<and>
   isListening (fst (clearAll s)) = isListening s \<and>
   geminiApiKey (fst (clearAll s)) = geminiApiKey s \<and>
   isProcessing (fst (clearAll s)) = isProcessing s \<and>
   snd (clearAll s) = []"
  by (simp add: clearAll_def)

section \<open>Properties of the history screen\<close>

subsection \<open>Copy confirmations\<close>

lemma key_distinct: "transcript_key i \<noteq> response_key j"
  by (simp add: transcript_key_def response_key_def lit_def)

lemma reachable_step: "reachable c \<Longrightarrow> hstep c c' \<Longrightarrow> reachable c'"
  by (auto simp: reachable_def)

text \<open>
  The detail view with a fresh transcript confirmation is reached by loading three
  records, opening the second and copying its transcript.
\<close>

lemma reachable_c_detail: "reachable c_detail"
proof -
  define b where "b = rec_of ''b'' ''second'' ''two''"
  define c1 where "c1 = config_init\<lparr>ui := fetchRecords_done
      (StoreResolves (Some three_records) None) (ui config_init), fetching := False\<rparr>"
  define c2 where "c2 = c1\<lparr>ui := (ui c1)\<lparr>selectedRecord := Some b\<rparr>\<rparr>"
  define c3 where "c3 = c2\<lparr>copies := copies c2 @ [transcript_key (rec_id b)]\<rparr>"
  define c4 where "c4 = c3\<lparr>ui := fst (copyToClipboard (transcript_key (rec_id b)) None (ui c3)),
      copies := remove1 (transcript_key (rec_id b)) (copies c3),
      timers := timers c3 +
        length (snd (copyToClipboard (transcript_key (rec_id b)) None (ui c3)))\<rparr>"
  have u1: "ui c1 = \<lparr> records = three_records, isLoading = False, hist_error = [],
      hist_copied = None, selectedRecord = None \<rparr>"
    by (simp add: c1_def config_init_def fetchRecords_done_def fetchRecords_start_def
        hist_init_def)
  have "reachable config_init" by (simp add: reachable_def)
  moreover have "hstep config_init c1"
    unfolding c1_def by (rule hstep.fetch_answers) (simp add: config_init_def)
  ultimately have r1: "reachable c1" by (rule reachable_step)
  have "hstep c1 c2"
    unfolding c2_def by (rule hstep.select_row) (simp_all add: u1 three_records_def b_def)
  with r1 have r2: "reachable c2" by (rule reachable_step)
  have "hstep c2 c3"
    unfolding c3_def by (rule hstep.click_copy_transcript) (simp add: c2_def)
  with r2 have r3: "reachable c3" by (rule reachable_step)
  have "hstep c3 c4"
    unfolding c4_def by (rule hstep.copy_answers) (simp add: c3_def)
  with r3 have r4: "reachable c4" by (rule reachable_step)
  have "c4 = c_detail"
    by (simp add: c4_def c3_def c2_def c1_def config_init_def c_detail_def s_detail_def
        copyToClipboard_def b_def rec_of_def fetchRecords_done_def fetchRecords_start_def
        hist_init_def)
  with r4 show ?thesis by simp
qed

text \<open>
  Claim C5, as stated, fails: one key is stored for the whole screen, so in a reachable
  state copying the response of a record takes the check mark away from its transcript.
\<close>

theorem copy_replaces_other_confirmation:
  "reachable c_detail \<and>
   transcript_key (lit ''b'') \<noteq> response_key (lit ''b'') \<and>
   confirmed (ui c_detail) (transcript_key (lit ''b'')) \<and>
   \<not> confirmed (fst (copyToClipboard (response_key (lit ''b'')) None (ui c_detail)))
       (transcript_key (lit ''b''))"
proof -
  have "confirmed (ui c_detail) (transcript_key (lit ''b''))"
    by (simp add: confirmed_def c_detail_def s_detail_def)
  moreover
  have "\<not> confirmed (fst (copyToClipboard (response_key (lit ''b'')) None (ui c_detail)))
      (transcript_key (lit ''b''))"
    by (simp add: confirmed_def copyToClipboard_def key_distinct [THEN not_sym])
  ultimately show ?thesis
    using reachable_c_detail key_distinct [of "lit ''b''" "lit ''b''"] by simp
qed

text \<open>
  Claim C5, amended.  After a successful copy the copied target is the only confirmed
  one: no other target shows a confirmation, whether it showed one before or not.  A
  failed copy changes no confirmation.  The keys tell targets apart: the transcript key
  of a record is never the response key of any record, and two transcript keys, or two
  response keys, are equal only for equal ids.
\<close>

theorem copy_confirms_only_its_target:
  "(confirmed (fst (copyToClipboard key None s)) k \<longleftrightarrow> k = key) \<and>
   (confirmed (fst (copyToClipboard key (Some e) s)) k \<longleftrightarrow> confirmed s k) \<and>
   transcript_key i \<noteq> response_key j \<and>
   (transcript_key i = transcript_key j \<longleftrightarrow> i = j) \<and>
   (response_key i = response_key j \<longleftrightarrow> i = j)"
  by (auto simp: confirmed_def copyToClipboard_def key_distinct)
     (simp_all add: transcript_key_def response_key_def)

theorem copy_confirms_only_its_target_witness:
  "confirmed (fst (copyToClipboard (response_key (lit ''b'')) None s_detail))
     (response_key (lit ''b'')) \<and>
   \<not> confirmed (fst (copyToClipboard (response_key (lit ''b'')) None s_detail))
     (response_key (lit ''a'')) \<and>
   confirmed (fst (copyToClipboard (response_key (lit ''b'')) (Some NonError) s_detail))
     (transcript_key (lit ''b''))"
proof -
  have ne: "lit ''a'' \<noteq> lit ''b''" by (simp add: lit_def)
  have c: "confirmed s_detail (transcript_key (lit ''b''))"
    by (simp add: confirmed_def s_detail_def)
  note e = copy_confirms_only_its_target [where key = "response_key (lit ''b'')"
      and s = s_detail and e = NonError and i = "lit ''a''" and j = "lit ''b''"]
  from e [of "response_key (lit ''b'')"] e [of "response_key (lit ''a'')"]
    e [of "transcript_key (lit ''b'')"] ne c
  show ?thesis by simp
qed

subsection \<open>Delete\<close>

lemma length_filter_distinct:
  "distinct (map f xs) \<Longrightarrow> i \<in> f ` set xs \<Longrightarrow>
   Suc (length (filter (\<lambda>x. f x \<noteq> i) xs)) = length xs"
proof (induction xs)
  case Nil
  then show ?case by simp
next
  case (Cons x xs)
  show ?case
  proof (cases "f x = i")
    case True
    with Cons.prems have "\<forall>y\<in>set xs. f y \<noteq> i" by (force simp: image_iff)
    then have "filter (\<lambda>x. f x \<noteq> i) xs = xs" by (simp add: filter_id_conv)
    with True show ?thesis by simp
  next
    case False
    with Cons show ?thesis by auto
  qed
qed

text \<open>
  A successful delete that answers in the render it was clicked in: the list loses the
  record of that id and keeps all the others in their order; ids being unique, it is
  shorter by exactly one.  The selection is cleared, and with it the detail view closed,
  exactly when the selected record has that id.  Nothing else changes.
\<close>

lemma delete_in_own_render:
  assumes "thrown res = None" and "i \<in> rec_id ` set (records s)"
    and "distinct (map rec_id (records s))"
  shows "records (deleteRecord s i res s) = filter (\<lambda>x. rec_id x \<noteq> i) (records s) \<and>
         Suc (length (records (deleteRecord s i res s))) = length (records s) \<and>
         selectedRecord (deleteRecord s i res s) =
           (if map_option rec_id (selectedRecord s) = Some i then None else selectedRecord s) \<and>
         (map_option rec_id (selectedRecord s) = Some i \<longrightarrow>
            \<not> shows_detail (deleteRecord s i res s)) \<and>
         hist_error (deleteRecord s i res s) = hist_error s \<and>
         isLoading (deleteRecord s i res s) = isLoading s \<and>
         hist_copied (deleteRecord s i res s) = hist_copied s"
proof -
  have r: "records (deleteRecord s i res s) = filter (\<lambda>x. rec_id x \<noteq> i) (records s)"
    using assms(1) by (simp add: deleteRecord_def)
  from length_filter_distinct [OF assms(3,2)] r
  have "Suc (length (records (deleteRecord s i res s))) = length (records s)" by simp
  with r assms(1) show ?thesis
    by (cases "selectedRecord s") (auto simp: deleteRecord_def shows_detail_def)
qed

text \<open>
  The handler computes the new list from the \<open>records\<close> of the render it was clicked
  in, and tests the \<open>selectedRecord\<close> of that render.  Between click and answer the
  state may have moved on.
\<close>

lemma reachable_loaded:
  "reachable \<lparr> ui = s_loaded, fetching = False, deletes = [], copies = [], timers = 0 \<rparr>"
proof -
  have "hstep config_init (config_init\<lparr>ui := fetchRecords_done
      (StoreResolves (Some three_records) None) (ui config_init), fetching := False\<rparr>)"
    by (rule hstep.fetch_answers) (simp add: config_init_def)
  moreover have "config_init\<lparr>ui := fetchRecords_done
      (StoreResolves (Some three_records) None) (ui config_init), fetching := False\<rparr> =
      \<lparr> ui = s_loaded, fetching = False, deletes = [], copies = [], timers = 0 \<rparr>"
    by (simp add: config_init_def fetchRecords_done_def fetchRecords_start_def hist_init_def
        s_loaded_def)
  moreover have "reachable config_init" by (simp add: reachable_def)
  ultimately show ?thesis using reachable_step by metis
qed

lemma reachable_c_two_deletes: "reachable c_two_deletes"
proof -
  define c1 where
    "c1 = \<lparr> ui = s_loaded, fetching = False, deletes = [], copies = [], timers = 0 \<rparr>"
  define c2 where
    "c2 = c1\<lparr>deletes := deletes c1 @ [(ui c1, rec_id (rec_of ''a'' ''first'' ''one''))]\<rparr>"
  define c3 where
    "c3 = c2\<lparr>deletes := deletes c2 @ [(ui c2, rec_id (rec_of ''b'' ''second'' ''two''))]\<rparr>"
  define c4 where
    "c4 = c3\<lparr>ui := deleteRecord s_loaded (lit ''a'') (StoreResolves None None) (ui c3),
       deletes := remove1 (s_loaded, lit ''a'') (deletes c3)\<rparr>"
  have r1: "reachable c1" unfolding c1_def by (rule reachable_loaded)
  have "hstep c1 c2"
    unfolding c2_def
    by (rule hstep.click_delete_row) (simp_all add: c1_def s_loaded_def three_records_def)
  with r1 have r2: "reachable c2" by (rule reachable_step)
  have "hstep c2 c3"
    unfolding c3_def
    by (rule hstep.click_delete_row)
      (simp_all add: c2_def c1_def s_loaded_def three_records_def)
  with r2 have r3: "reachable c3" by (rule reachable_step)
  have "hstep c3 c4"
    unfolding c4_def
    by (rule hstep.delete_answers) (simp add: c3_def c2_def c1_def rec_of_def)
  with r3 have r4: "reachable c4" by (rule reachable_step)
  have "c4 = c_two_deletes"
    by (simp add: c4_def c3_def c2_def c1_def c_two_deletes_def deleteRecord_def s_loaded_def
        three_records_def rec_of_def lit_def)
  with r4 show ?thesis by simp
qed

lemma reachable_c_opened: "reachable c_opened"
proof -
  define c1 where
    "c1 = \<lparr> ui = s_loaded, fetching = False, deletes = [], copies = [], timers = 0 \<rparr>"
  define c2 where
    "c2 = c1\<lparr>deletes := deletes c1 @ [(ui c1, rec_id (rec_of ''b'' ''second'' ''two''))]\<rparr>"
  define c3 where
    "c3 = c2\<lparr>ui := (ui c2)\<lparr>selectedRecord := Some (rec_of ''b'' ''second'' ''two'')\<rparr>\<rparr>"
  have r1: "reachable c1" unfolding c1_def by (rule reachable_loaded)
  have "hstep c1 c2"
    unfolding c2_def
    by (rule hstep.click_delete_row) (simp_all add: c1_def s_loaded_def three_records_def)
  with r1 have r2: "reachable c2" by (rule reachable_step)
  have "hstep c2 c3"
    unfolding c3_def
    by (rule hstep.select_row) (simp_all add: c2_def c1_def s_loaded_def three_records_def)
  with r2 have r3: "reachable c3" by (rule reachable_step)
  have "c3 = c_opened"
    by (simp add: c3_def c2_def c1_def c_opened_def rec_of_def)
  with r3 show ?thesis by simp
qed

text \<open>
  A row opened while its delete is in flight stays open when the delete succeeds: the
  handler tested the selection of the list view, where nothing was selected.  The detail
  view then shows a record that is neither in the store nor in the list.
\<close>

lemma stale_delete_keeps_detail_open:
  "reachable c_opened \<and>
   (s_loaded, lit ''b'') \<in> set (deletes c_opened) \<and>
   map_option rec_id (selectedRecord (ui c_opened)) = Some (lit ''b'') \<and>
   shows_detail (deleteRecord s_loaded (lit ''b'') (StoreResolves None None) (ui c_opened)) \<and>
   lit ''b'' \<notin> rec_id ` set (records
     (deleteRecord s_loaded (lit ''b'') (StoreResolves None None) (ui c_opened)))"
proof -
  have "shows_detail (deleteRecord s_loaded (lit ''b'') (StoreResolves None None) (ui c_opened))"
    "lit ''b'' \<notin> rec_id ` set (records
       (deleteRecord s_loaded (lit ''b'') (StoreResolves None None) (ui c_opened)))"
    by (simp_all add: deleteRecord_def shows_detail_def c_opened_def s_loaded_def
        three_records_def rec_of_def lit_def)
  with reachable_c_opened show ?thesis by (simp add: c_opened_def rec_of_def)
qed

text \<open>
  Claim C7.  The claim asks that a successful delete remove exactly the record of that
  id from the displayed list and leave all the others.  In the reachable configuration
  below the list shows \<open>b\<close> and \<open>c\<close>, record \<open>a\<close> having been deleted, and the delete
  of \<open>b\<close>, clicked while \<open>a\<close> was still listed, is in flight.  When it succeeds the
  list becomes \<open>a\<close> and \<open>c\<close>: the record of that id is gone, and the deleted record
  \<open>a\<close> is displayed again.
\<close>

theorem stale_delete_restores_record:
  "reachable c_two_deletes \<and>
   (s_loaded, lit ''b'') \<in> set (deletes c_two_deletes) \<and>
   records (ui c_two_deletes) =
     [rec_of ''b'' ''second'' ''two'', rec_of ''c'' ''third'' ''three''] \<and>
   records (deleteRecord s_loaded (lit ''b'') (StoreResolves None None) (ui c_two_deletes)) =
     [rec_of ''a'' ''first'' ''one'', rec_of ''c'' ''third'' ''three'']"
proof -
  have "records (deleteRecord s_loaded (lit ''b'') (StoreResolves None None)
      (ui c_two_deletes)) = [rec_of ''a'' ''first'' ''one'', rec_of ''c'' ''third'' ''three'']"
    by (simp add: deleteRecord_def s_loaded_def three_records_def rec_of_def lit_def)
  with reachable_c_two_deletes show ?thesis by (simp add: c_two_deletes_def)
qed



subsection \<open>Display modes\<close>

lemma loading_inv_init: "loading_inv config_init"
  by (simp add: loading_inv_def config_init_def fetchRecords_start_def hist_init_def)

lemma isLoading_fetch_done [simp]: "\<not> isLoading (fetchRecords_done res s)"
  by (simp add: fetchRecords_done_def split: option.splits)

lemma isLoading_delete [simp]: "isLoading (deleteRecord r i res s) = isLoading s"
  by (simp add: deleteRecord_def split: option.splits)

lemma isLoading_copy [simp]: "isLoading (fst (copyToClipboard key res s)) = isLoading s"
  by (simp add: copyToClipboard_def split: option.splits)

lemma loading_inv_step: "hstep c c' \<Longrightarrow> loading_inv c \<Longrightarrow> loading_inv c'"
  by (induction rule: hstep.induct) (auto simp: loading_inv_def timer_fired_def)

lemma reachable_loading_inv: "reachable c \<Longrightarrow> loading_inv c"
  unfolding reachable_def
  by (induction rule: rtranclp_induct) (auto intro: loading_inv_init loading_inv_step)

text \<open>
  Claim C9, as stated, fails: after the fetch started on mount has failed, the error
  banner and the empty-list message are rendered together.
\<close>

theorem failed_fetch_shows_error_and_empty:
  "reachable c_failed \<and> shows_error (ui c_failed) \<and> shows_empty (ui c_failed)"
proof -
  have "fetching config_init" by (simp add: config_init_def)
  then have "hstep config_init c_failed"
    unfolding c_failed_def by (rule hstep.fetch_answers)
  then have "reachable c_failed" by (auto simp: reachable_def)
  moreover have "shows_error (ui c_failed)" "shows_empty (ui c_failed)"
    by (simp_all add: shows_error_def shows_empty_def c_failed_def config_init_def
        fetchRecords_done_def fetchRecords_start_def hist_init_def lit_def)
  ultimately show ?thesis by simp
qed

text \<open>
  Claim C9, amended.  In every reachable state the spinner is shown together with
  neither the empty-list message nor the error banner nor the list, and the empty-list
  message is not shown together with the list.  The error banner is rendered apart from
  these three and may accompany the empty-list message.
\<close>

theorem loading_excludes_empty_and_error:
  assumes "reachable c"
  shows "\<not> (shows_loading (ui c) \<and> shows_empty (ui c)) \<and>
         \<not> (shows_loading (ui c) \<and> shows_error (ui c)) \<and>
         \<not> (shows_loading (ui c) \<and> shows_list (ui c)) \<and>
         \<not> (shows_empty (ui c) \<and> shows_list (ui c))"
  using reachable_loading_inv [OF assms]
  by (auto simp: loading_inv_def shows_loading_def shows_empty_def shows_error_def
      shows_list_def)

theorem loading_excludes_empty_and_error_witness:
  "reachable config_init \<and> shows_loading (ui config_init) \<and>
   \<not> shows_empty (ui config_init) \<and> \<not> shows_error (ui config_init) \<and>
   \<not> shows_list (ui config_init)"
proof -
  have r: "reachable config_init" by (simp add: reachable_def)
  have l: "shows_loading (ui config_init)"
    by (simp add: shows_loading_def config_init_def fetchRecords_start_def hist_init_def)
  from loading_excludes_empty_and_error [OF r] r l show ?thesis by simp
qed

end
